theory Spec2Isabelle
  imports Complex_Main "HOL-Library.Word"
begin

section \<open>Data model (types.ts)\<close>

text \<open>
  JavaScript strings are modelled as \<^typ>\<open>string\<close>: one \<^typ>\<open>char\<close> per code unit, which
  covers the code units below 256. A value that may be \<open>null\<close> or \<open>undefined\<close> is an
  \<^typ>\<open>'a option\<close>.
\<close>

datatype AppState = IDLE | GENERATING | SUCCESS | ERROR

datatype AppMode = COMPOSITE | GENERATE | EDIT | ANIMATE | ANALYZE | CULINARY | REASON

datatype ResultType = RT_image | RT_video | RT_text

datatype AspectRatio = R_1_1 | R_2_3 | R_3_2 | R_3_4 | R_4_3 | R_9_16 | R_16_9 | R_21_9

datatype ImageSize = S_1K | S_2K | S_4K

text \<open>A browser \<open>File\<close>: its content, its name and its declared type.\<close>

record File =
  file_content :: string
  file_name :: string
  file_type :: string

text \<open>
  \<open>FileData\<close>. The field \<open>base64\<close> is declared a string; \<open>chainResultToInput\<close> fills it with
  \<open>split(',')[1]\<close>, which is \<open>undefined\<close> for a locator without a comma, hence the option.
\<close>

record FileData =
  file_obj :: File
  previewUrl :: string
  base64 :: "string option"
  mimeType :: string

record PromptHistoryItem =
  item_id :: string
  item_text :: string
  item_timestamp :: nat

text \<open>An exception value: \<open>new Error(message)\<close>, or the \<open>RangeError\<close> of a typed-array view.\<close>

datatype js_error = Error string | RangeError string

section \<open>The provider adapters (geminiService)\<close>

subsection \<open>Requests and responses of the backend\<close>

text \<open>A part of a request: a text, or inline data with its MIME type.\<close>

datatype Part = TextPart string | InlineData string "string option"

record GenerateContentConfig =
  imageConfig_aspectRatio :: "AspectRatio option"
  imageConfig_imageSize :: "ImageSize option"
  thinkingBudget :: "nat option"
  googleSearch :: bool
  responseModalities :: "string list"
  voiceName :: "string option"

definition no_config :: GenerateContentConfig where
  "no_config =
     \<lparr>imageConfig_aspectRatio = None, imageConfig_imageSize = None, thinkingBudget = None,
      googleSearch = False, responseModalities = [], voiceName = None\<rparr>"

record GenerateContentRequest =
  req_model :: string
  req_parts :: "Part list"
  req_config :: GenerateContentConfig

text \<open>
  A part of the first candidate of a response. Its \<open>inlineData\<close> is an object or absent,
  and the object's \<open>data\<close> is a string or absent.
\<close>

record ResponseBlob =
  blob_data :: "string option"

record ResponsePart =
  part_inlineData :: "ResponseBlob option"

record GroundingChunk =
  web_uri :: "string option"
  web_title :: "string option"

text \<open>
  What the adapters read of a response: \<open>response.text\<close>, the parts of the first candidate
  (\<open>candidates?.[0]?.content?.parts\<close>, \<open>None\<close> when the chain is undefined) and its grounding
  chunks.
\<close>

record GenerateContentResponse =
  resp_text :: "string option"
  resp_parts :: "ResponsePart list option"
  resp_groundingChunks :: "GroundingChunk list option"

record GenerateVideosRequest =
  vid_model :: string
  vid_prompt :: string
  vid_imageBytes :: "string option"
  vid_mimeType :: string
  vid_numberOfVideos :: nat
  vid_resolution :: string
  vid_aspectRatio :: AspectRatio

text \<open>
  A video operation: \<open>done\<close>, and \<open>response?.generatedVideos?.[0]?.video?.uri\<close>. The name
  stands for whatever else identifies the job.
\<close>

record Operation =
  op_name :: string
  op_done :: bool
  op_videoUri :: "string option"

text \<open>
  The environment of the adapters: the client's calls (\<open>Inl\<close> is a rejected promise), the
  status probe as a function of the number of probes made so far, the browser's \<open>fetch\<close>
  with \<open>blob()\<close>, \<open>URL.createObjectURL\<close>, \<open>atob\<close> and \<open>process.env.API_KEY\<close>.
\<close>

record backend =
  generateContent :: "GenerateContentRequest \<Rightarrow> js_error + GenerateContentResponse"
  generateVideos :: "GenerateVideosRequest \<Rightarrow> js_error + Operation"
  getVideosOperation :: "nat \<Rightarrow> Operation \<Rightarrow> js_error + Operation"
  fetch_blob :: "string \<Rightarrow> js_error + string"
  createObjectURL :: "string \<Rightarrow> string"
  atob :: "string \<Rightarrow> js_error + string"
  API_KEY :: string

text \<open>
  JavaScript truthiness of a \<open>string | null\<close>: \<open>null\<close> and the empty string are falsy,
  every other string is truthy.
\<close>

definition truthy :: "string option \<Rightarrow> bool" where
  "truthy v = (case v of None \<Rightarrow> False | Some t \<Rightarrow> t \<noteq> [])"

text \<open>\<open>x || d\<close> on a \<open>string | undefined\<close>: \<open>d\<close> when \<open>x\<close> is undefined or empty.\<close>

definition or_else :: "string option \<Rightarrow> string \<Rightarrow> string" where
  "or_else x d = (case x of None \<Rightarrow> d | Some t \<Rightarrow> if t = [] then d else t)"

text \<open>A value inside a template literal: \<open>undefined\<close> prints as the word.\<close>

definition show_str :: "string option \<Rightarrow> string" where
  "show_str x = (case x of None \<Rightarrow> ''undefined'' | Some t \<Rightarrow> t)"

subsection \<open>The image adapters\<close>

text \<open>
  The loop over the parts of the first candidate: the first part whose \<open>inlineData\<close> is
  an object gives the data URL, with its \<open>data\<close> inside the template literal; no such
  part throws.
\<close>

fun first_inlineData :: "ResponsePart list \<Rightarrow> string option" where
  "first_inlineData [] = None"
| "first_inlineData (p # ps) =
     (case part_inlineData p of
        Some inlineData \<Rightarrow> Some (''data:image/png;base64,'' @ show_str (blob_data inlineData))
      | None \<Rightarrow> first_inlineData ps)"

definition image_of_response :: "GenerateContentResponse \<Rightarrow> js_error + string" where
  "image_of_response r =
     (case first_inlineData (case resp_parts r of None \<Rightarrow> [] | Some ps \<Rightarrow> ps) of
        Some url \<Rightarrow> Inr url
      | None \<Rightarrow> Inl (Error ''No image generated''))"

definition composite_prompt :: "string \<Rightarrow> string" where
  "composite_prompt description' =
     ''Edit the Background Scene by inserting the subject from Person Reference. '' @
     [CHR 0x0A] @ ''  Use the reference strictly for structural inpainting. '' @
     [CHR 0x0A] @
     ''  Harmonize lighting, grain, and color temperature to match the background. '' @
     [CHR 0x0A] @ ''  Output a single photorealistic image. '' @
     [CHR 0x0A] @ ''  Context: '' @ description'"

definition generateRelationshipPhoto_request ::
  "string option \<Rightarrow> string \<Rightarrow> string option \<Rightarrow> string \<Rightarrow> string \<Rightarrow> GenerateContentRequest"
  where
  "generateRelationshipPhoto_request bgBase64 bgMime refBase64 refMime description' =
     \<lparr>req_model = ''gemini-3-pro-image-preview'',
      req_parts = [TextPart (composite_prompt description'),
                   InlineData bgMime bgBase64, InlineData refMime refBase64],
      req_config = no_config\<lparr>imageConfig_aspectRatio := Some R_1_1,
                              imageConfig_imageSize := Some S_2K\<rparr>\<rparr>"

definition generateRelationshipPhoto ::
  "backend \<Rightarrow> string option \<Rightarrow> string \<Rightarrow> string option \<Rightarrow> string \<Rightarrow> string
     \<Rightarrow> js_error + string" where
  "generateRelationshipPhoto b bgBase64 bgMime refBase64 refMime description' =
     (case generateContent b
             (generateRelationshipPhoto_request bgBase64 bgMime refBase64 refMime description')
      of Inl e \<Rightarrow> Inl e
       | Inr response \<Rightarrow> image_of_response response)"

definition generateImage_request ::
  "string \<Rightarrow> ImageSize \<Rightarrow> AspectRatio \<Rightarrow> GenerateContentRequest" where
  "generateImage_request prompt size' ratio =
     \<lparr>req_model = ''gemini-3-pro-image-preview'',
      req_parts = [TextPart prompt],
      req_config = no_config\<lparr>imageConfig_aspectRatio := Some ratio,
                              imageConfig_imageSize := Some size'\<rparr>\<rparr>"

definition generateImage ::
  "backend \<Rightarrow> string \<Rightarrow> ImageSize \<Rightarrow> AspectRatio \<Rightarrow> js_error + string" where
  "generateImage b prompt size' ratio =
     (case generateContent b (generateImage_request prompt size' ratio) of
        Inl e \<Rightarrow> Inl e
      | Inr response \<Rightarrow> image_of_response response)"

definition editImage_request :: "string option \<Rightarrow> string \<Rightarrow> string \<Rightarrow> GenerateContentRequest"
  where
  "editImage_request imageBase64 imageMime prompt =
     \<lparr>req_model = ''gemini-2.5-flash-image'',
      req_parts = [TextPart prompt, InlineData imageMime imageBase64],
      req_config = no_config\<rparr>"

definition editImage :: "backend \<Rightarrow> string option \<Rightarrow> string \<Rightarrow> string \<Rightarrow> js_error + string"
  where
  "editImage b imageBase64 imageMime prompt =
     (case generateContent b (editImage_request imageBase64 imageMime prompt) of
        Inl e \<Rightarrow> Inl e
      | Inr response \<Rightarrow> image_of_response response)"

subsection \<open>The video adapter\<close>

text \<open>\<open>ratio === '9:16' ? '9:16' : '16:9'\<close>\<close>

definition videoRatio :: "AspectRatio \<Rightarrow> AspectRatio" where
  "videoRatio ratio = (if ratio = R_9_16 then R_9_16 else R_16_9)"

definition generateVideo_request ::
  "string option \<Rightarrow> string \<Rightarrow> string \<Rightarrow> AspectRatio \<Rightarrow> GenerateVideosRequest" where
  "generateVideo_request imageBase64 imageMime prompt ratio =
     \<lparr>vid_model = ''veo-3.1-fast-generate-preview'',
      vid_prompt = or_else (Some prompt) ''Animate this image cinematically'',
      vid_imageBytes = imageBase64,
      vid_mimeType = imageMime,
      vid_numberOfVideos = 1,
      vid_resolution = ''720p'',
      vid_aspectRatio = videoRatio ratio\<rparr>"

text \<open>
  The polling loop \<open>while (!operation.done)\<close>: it has no bound, so its result is an option
  and \<open>None\<close> is the loop that never ends. \<open>n\<close> counts the probes made so far; the five
  seconds between them are not modelled.
\<close>

partial_function (option) poll ::
  "backend \<Rightarrow> nat \<Rightarrow> Operation \<Rightarrow> (js_error + Operation) option" where
  "poll b n operation =
     (if op_done operation then Some (Inr operation)
      else (case getVideosOperation b n operation of
              Inl e \<Rightarrow> Some (Inl e)
            | Inr operation' \<Rightarrow> poll b (Suc n) operation'))"

definition video_of_operation :: "backend \<Rightarrow> Operation \<Rightarrow> js_error + string" where
  "video_of_operation b operation =
     (if \<not> truthy (op_videoUri operation) then Inl (Error ''No video generated'')
      else (case fetch_blob b (the (op_videoUri operation) @ ''&key='' @ API_KEY b) of
              Inl e \<Rightarrow> Inl e
            | Inr videoBlob \<Rightarrow> Inr (createObjectURL b videoBlob)))"

definition generateVideo ::
  "backend \<Rightarrow> string option \<Rightarrow> string \<Rightarrow> string \<Rightarrow> AspectRatio \<Rightarrow> (js_error + string) option"
  where
  "generateVideo b imageBase64 imageMime prompt ratio =
     (case generateVideos b (generateVideo_request imageBase64 imageMime prompt ratio) of
        Inl e \<Rightarrow> Some (Inl e)
      | Inr operation \<Rightarrow>
          (case poll b 0 operation of
             None \<Rightarrow> None
           | Some (Inl e) \<Rightarrow> Some (Inl e)
           | Some (Inr operation') \<Rightarrow> Some (video_of_operation b operation')))"

subsection \<open>The text adapters\<close>

definition analyzeImage_request ::
  "string option \<Rightarrow> string \<Rightarrow> string \<Rightarrow> GenerateContentRequest" where
  "analyzeImage_request imageBase64 imageMime prompt =
     \<lparr>req_model = ''gemini-3-pro-preview'',
      req_parts =
        [TextPart (or_else (Some prompt)
           ''Analyze this image in extreme detail. Structure your response with headers.''),
         InlineData imageMime imageBase64],
      req_config = no_config\<lparr>thinkingBudget := Some 32768\<rparr>\<rparr>"

definition analyzeImage ::
  "backend \<Rightarrow> string option \<Rightarrow> string \<Rightarrow> string \<Rightarrow> js_error + string" where
  "analyzeImage b imageBase64 imageMime prompt =
     (case generateContent b (analyzeImage_request imageBase64 imageMime prompt) of
        Inl e \<Rightarrow> Inl e
      | Inr response \<Rightarrow> Inr (or_else (resp_text response) ''No analysis generated.''))"

definition basePrompt :: string where
  "basePrompt =
     ''Analyze this food image. Identify the dish, estimate the ingredients, and provide a step-by-step recipe. Also suggest a wine pairing. Use Markdown headers (#) for sections.''"

definition analyzeFood_request ::
  "string option \<Rightarrow> string \<Rightarrow> string \<Rightarrow> GenerateContentRequest" where
  "analyzeFood_request imageBase64 imageMime userPrompt =
     \<lparr>req_model = ''gemini-3-pro-preview'',
      req_parts =
        [TextPart (if userPrompt \<noteq> [] then basePrompt @ '' User note: '' @ userPrompt
                   else basePrompt),
         InlineData imageMime imageBase64],
      req_config = no_config\<rparr>"

definition analyzeFood ::
  "backend \<Rightarrow> string option \<Rightarrow> string \<Rightarrow> string \<Rightarrow> js_error + string" where
  "analyzeFood b imageBase64 imageMime userPrompt =
     (case generateContent b (analyzeFood_request imageBase64 imageMime userPrompt) of
        Inl e \<Rightarrow> Inl e
      | Inr response \<Rightarrow> Inr (or_else (resp_text response) ''Could not analyze food.''))"

definition deepReasoning_request :: "string \<Rightarrow> GenerateContentRequest" where
  "deepReasoning_request prompt =
     \<lparr>req_model = ''gemini-3-pro-preview'',
      req_parts = [TextPart prompt],
      req_config = no_config\<lparr>thinkingBudget := Some 16000, googleSearch := True\<rparr>\<rparr>"

text \<open>
  The \<open>forEach\<close> over the grounding chunks: a chunk with a truthy \<open>web.uri\<close> adds a line
  \<open>- [title](uri)\<close>.
\<close>

fun source_lines :: "GroundingChunk list \<Rightarrow> string" where
  "source_lines [] = []"
| "source_lines (chunk # chunks) =
     (if truthy (web_uri chunk)
      then ''- ['' @ show_str (web_title chunk) @ '']('' @ the (web_uri chunk) @ '')'' @
           [CHR 0x0A] @ source_lines chunks
      else source_lines chunks)"

definition reasoning_text :: "GenerateContentResponse \<Rightarrow> string" where
  "reasoning_text response =
     (let text0 = or_else (resp_text response) [];
          text1 = (case resp_groundingChunks response of
                     None \<Rightarrow> text0
                   | Some groundingChunks \<Rightarrow>
                       text0 @ [CHR 0x0A, CHR 0x0A] @ ''### Sources'' @ [CHR 0x0A] @
                       source_lines groundingChunks)
      in or_else (Some text1) ''No reasoning generated.'')"

definition deepReasoning :: "backend \<Rightarrow> string \<Rightarrow> js_error + string" where
  "deepReasoning b prompt =
     (case generateContent b (deepReasoning_request prompt) of
        Inl e \<Rightarrow> Inl e
      | Inr response \<Rightarrow> Inr (reasoning_text response))"

subsection \<open>The speech adapter\<close>

text \<open>
  \<open>text.replace(/[*#\[\]()]/g, '')\<close>: a scan that drops every character of the class and
  keeps the others in order.
\<close>

definition markup_chars :: "char list" where
  "markup_chars = ''*#[]()''"

fun replace_markup :: "string \<Rightarrow> string" where
  "replace_markup [] = []"
| "replace_markup (c # cs) =
     (if c \<in> set markup_chars then replace_markup cs else c # replace_markup cs)"

text \<open>\<open>str.substring(0, n)\<close>\<close>

definition substring0 :: "nat \<Rightarrow> string \<Rightarrow> string" where
  "substring0 n t = take n t"

definition cleanText :: "string \<Rightarrow> string" where
  "cleanText t = substring0 1000 (replace_markup t)"

definition generateSpeech_request :: "string \<Rightarrow> GenerateContentRequest" where
  "generateSpeech_request t =
     \<lparr>req_model = ''gemini-2.5-flash-preview-tts'',
      req_parts = [TextPart (cleanText t)],
      req_config = no_config\<lparr>responseModalities := [''AUDIO''], voiceName := Some ''Kore''\<rparr>\<rparr>"

type_synonym byte = "8 word"

text \<open>\<open>response.candidates?.[0]?.content?.parts?.[0]?.inlineData?.data\<close>\<close>

definition base64Audio_of :: "GenerateContentResponse \<Rightarrow> string option" where
  "base64Audio_of response =
     (case resp_parts response of
        None \<Rightarrow> None
      | Some ps \<Rightarrow>
          (case ps of
             [] \<Rightarrow> None
           | p # _ \<Rightarrow>
               (case part_inlineData p of
                  None \<Rightarrow> None
                | Some inlineData \<Rightarrow> blob_data inlineData)))"

text \<open>
  The adapter after the call: no audio throws; otherwise \<open>atob\<close> and one byte per
  character code of the binary string.
\<close>

definition audio_of_response :: "backend \<Rightarrow> GenerateContentResponse \<Rightarrow> js_error + byte list"
  where
  "audio_of_response b response =
     (let base64Audio = base64Audio_of response
      in if \<not> truthy base64Audio then Inl (Error ''No audio generated'')
         else (case atob b (the base64Audio) of
                 Inl e \<Rightarrow> Inl e
               | Inr binaryString \<Rightarrow> Inr (map of_char binaryString)))"

definition generateSpeech :: "backend \<Rightarrow> string \<Rightarrow> js_error + byte list" where
  "generateSpeech b t =
     (case generateContent b (generateSpeech_request t) of
        Inl e \<Rightarrow> Inl e
      | Inr response \<Rightarrow> audio_of_response b response)"

section \<open>The state of the App component (the \<open>useState\<close> cells)\<close>

record app =
  hasApiKey :: bool
  mode :: AppMode
  bgImage :: "FileData option"
  refImage :: "FileData option"
  description :: string
  aspectRatio :: AspectRatio
  imageSize :: ImageSize
  isVerified :: bool
  appState :: AppState
  resultContent :: "string option"
  resultType :: ResultType
  errorMessage :: "string option"
  promptHistory :: "PromptHistoryItem list"
  statusText :: string
  isPlayingAudio :: bool

text \<open>The state of the first render: the initial values given to \<open>useState\<close>.\<close>

definition initial_app :: app where
  "initial_app =
     \<lparr>hasApiKey = False, mode = COMPOSITE, bgImage = None, refImage = None,
      description = [], aspectRatio = R_1_1, imageSize = S_1K, isVerified = False,
      appState = IDLE, resultContent = None, resultType = RT_image, errorMessage = None,
      promptHistory = [], statusText = ''Processing...'', isPlayingAudio = False\<rparr>"

section \<open>canSubmit\<close>

definition canSubmit :: "app \<Rightarrow> bool" where
  "canSubmit s =
     (if appState s = GENERATING then False
      else if mode s = REASON then description s \<noteq> []
      else if mode s = GENERATE \<and> description s = [] then False
      else if mode s \<in> set [COMPOSITE, EDIT, ANIMATE, ANALYZE, CULINARY] \<and> bgImage s = None
        then False
      else if mode s = COMPOSITE \<and> (refImage s = None \<or> \<not> isVerified s) then False
      else True)"

section \<open>Switching mode from the navigation bar\<close>

text \<open>
  The \<open>onClick\<close> handler of a mode button: \<open>setMode(m); setResultContent(null)\<close>. The
  buttons carry no \<open>disabled\<close> attribute and the handler tests nothing.
\<close>

definition selectMode :: "AppMode \<Rightarrow> app \<Rightarrow> app" where
  "selectMode m s = s\<lparr>mode := m, resultContent := None\<rparr>"

section \<open>chainResultToInput\<close>

text \<open>
  \<open>str.split(sep)\<close> for a one-character separator: the pieces between the separators, in
  order; a string without the separator is its only piece.
\<close>

fun split_on :: "char \<Rightarrow> string \<Rightarrow> string list" where
  "split_on sep [] = [[]]"
| "split_on sep (c # cs) =
     (if c = sep then [] # split_on sep cs
      else (case split_on sep cs of
              [] \<Rightarrow> [[c]]
            | p # ps \<Rightarrow> (c # p) # ps))"

text \<open>Array indexing \<open>xs[i]\<close>: \<open>undefined\<close> out of range.\<close>

definition at_index :: "'a list \<Rightarrow> nat \<Rightarrow> 'a option" where
  "at_index xs i = (if i < length xs then Some (xs ! i) else None)"

text \<open>
  The handler, as a function of the state it was rendered with; \<open>fetch_blob\<close> is
  \<open>fetch(resultContent)\<close> followed by \<open>res.blob()\<close> (\<open>Inl\<close>: one of them threw). The
  \<open>catch\<close> block only logs, and control continues after the \<open>if\<close>.
\<close>

definition chainResultToInput :: "backend \<Rightarrow> AppMode \<Rightarrow> app \<Rightarrow> app" where
  "chainResultToInput b targetMode s =
     (if \<not> truthy (resultContent s) then s
      else
        let rc = the (resultContent s);
            s1 =
              (if resultType s = RT_image then
                 (case fetch_blob b rc of
                    Inl e \<Rightarrow> s
                  | Inr blob \<Rightarrow>
                      let newFileData =
                            \<lparr>file_obj = \<lparr>file_content = blob, file_name = ''chained_image.png'',
                                     file_type = ''image/png''\<rparr>,
                             previewUrl = rc,
                             base64 = at_index (split_on CHR '','' rc) 1,
                             mimeType = ''image/png''\<rparr>
                      in s\<lparr>bgImage := Some newFileData, refImage := None, description := []\<rparr>)
               else if resultType s = RT_text then s\<lparr>description := rc\<rparr>
               else s)
        in s1\<lparr>mode := targetMode, resultContent := None, appState := IDLE\<rparr>)"

text \<open>
  The handler is a closure of the component and its only callers are the three buttons
  Animate, Edit and Analyze, rendered inside \<open>resultContent ? (...)\<close> and under
  \<open>resultType === 'image' &&\<close>: the targets the interface offers in a state.
\<close>

definition chain_buttons :: "app \<Rightarrow> AppMode list" where
  "chain_buttons s =
     (if truthy (resultContent s) then
        (if resultType s = RT_image then [ANIMATE, EDIT, ANALYZE] else [])
      else [])"

text \<open>
  The chain operation as the program runs it: a click on the button of a target runs the
  handler; a target with no button cannot be clicked and the session stays as it is.
\<close>

definition click_chain :: "backend \<Rightarrow> AppMode \<Rightarrow> app \<Rightarrow> app" where
  "click_chain b targetMode s =
     (if targetMode \<in> set (chain_buttons s) then chainResultToInput b targetMode s else s)"

section \<open>Prompt history\<close>

text \<open>
  The white space that \<open>trim\<close> removes, among the code units below 256: tab, line feed,
  vertical tab, form feed, carriage return, space and no-break space.
\<close>

definition is_js_space :: "char \<Rightarrow> bool" where
  "is_js_space c = ((of_char c :: nat) \<in> set [9, 10, 11, 12, 13, 32, 160])"

definition trim :: "string \<Rightarrow> string" where
  "trim t = rev (dropWhile is_js_space (rev (dropWhile is_js_space t)))"

text \<open>
  \<open>addToHistory\<close>: the updater given to \<open>setPromptHistory\<close>, applied to the stored list.
  \<open>uuid\<close> is the value of \<open>crypto.randomUUID()\<close> and \<open>now\<close> that of \<open>Date.now()\<close>. The test
  against the first entry compares the text as given; the entry stores the trimmed text.
\<close>

definition addToHistory ::
  "string \<Rightarrow> string \<Rightarrow> nat \<Rightarrow> PromptHistoryItem list \<Rightarrow> PromptHistoryItem list" where
  "addToHistory t uuid now prev =
     (if trim t = [] then prev
      else if length prev > 0 \<and> item_text (hd prev) = t then prev
      else
        let newItem = \<lparr>item_id = uuid, item_text = trim t, item_timestamp = now\<rparr>
        in take 20 (newItem # prev))"

text \<open>
  A run of successful submits: each gives its directive, a fresh id and the time. The
  first element of the list is submitted first.
\<close>

fun submits :: "(string \<times> string \<times> nat) list \<Rightarrow> PromptHistoryItem list \<Rightarrow> PromptHistoryItem list"
  where
  "submits [] h = h"
| "submits ((t, uuid, now) # rest) h = submits rest (addToHistory t uuid now h)"

section \<open>handleAction\<close>

definition getStatusMessage :: "AppMode \<Rightarrow> string" where
  "getStatusMessage m =
     (case m of
        ANIMATE \<Rightarrow> ''Rendering frames (this may take a moment)...''
      | REASON \<Rightarrow> ''Accessing knowledge base & thinking...''
      | ANALYZE \<Rightarrow> ''Inspecting pixels...''
      | CULINARY \<Rightarrow> ''Identifying ingredients...''
      | COMPOSITE \<Rightarrow> ''Blending realities...''
      | _ \<Rightarrow> ''Generating...'')"

text \<open>The state while the request is in flight: the five setters before the \<open>try\<close>.\<close>

definition handleAction_begin :: "app \<Rightarrow> app" where
  "handleAction_begin s =
     s\<lparr>appState := GENERATING, statusText := getStatusMessage (mode s), errorMessage := None,
       resultContent := None, isPlayingAudio := False\<rparr>"

text \<open>
  The \<open>switch\<close> on the mode, on the values the handler was rendered with: the result and
  its type, or the error thrown. \<open>None\<close> is a video job that never completes.
\<close>

definition dispatch :: "backend \<Rightarrow> app \<Rightarrow> (js_error + string \<times> ResultType) option" where
  "dispatch b s =
     (let tag = (\<lambda>ty r. (case r of Inl e \<Rightarrow> Inl e | Inr v \<Rightarrow> Inr (v, ty)))
      in case mode s of
        COMPOSITE \<Rightarrow>
          (case (bgImage s, refImage s) of
             (Some bg, Some rf) \<Rightarrow>
               Some (tag RT_image (generateRelationshipPhoto b (base64 bg) (mimeType bg)
                                     (base64 rf) (mimeType rf) (description s)))
           | _ \<Rightarrow> Some (Inl (Error ''Missing images'')))
      | GENERATE \<Rightarrow>
          Some (tag RT_image (generateImage b (description s) (imageSize s) (aspectRatio s)))
      | EDIT \<Rightarrow>
          (case bgImage s of
             None \<Rightarrow> Some (Inl (Error ''Missing image''))
           | Some bg \<Rightarrow>
               Some (tag RT_image (editImage b (base64 bg) (mimeType bg) (description s))))
      | ANIMATE \<Rightarrow>
          (case bgImage s of
             None \<Rightarrow> Some (Inl (Error ''Missing image''))
           | Some bg \<Rightarrow>
               map_option (tag RT_video)
                 (generateVideo b (base64 bg) (mimeType bg) (description s) (aspectRatio s)))
      | ANALYZE \<Rightarrow>
          (case bgImage s of
             None \<Rightarrow> Some (Inl (Error ''Missing image''))
           | Some bg \<Rightarrow>
               Some (tag RT_text (analyzeImage b (base64 bg) (mimeType bg) (description s))))
      | CULINARY \<Rightarrow>
          (case bgImage s of
             None \<Rightarrow> Some (Inl (Error ''Missing food image''))
           | Some bg \<Rightarrow>
               Some (tag RT_text (analyzeFood b (base64 bg) (mimeType bg) (description s))))
      | REASON \<Rightarrow>
          (if description s = [] then Some (Inl (Error ''Missing prompt''))
           else Some (tag RT_text (deepReasoning b (description s)))))"

definition message :: "js_error \<Rightarrow> string" where
  "message e = (case e of Error m \<Rightarrow> m | RangeError m \<Rightarrow> m)"

text \<open>
  The end of the handler, applied to the state at that moment: \<open>d\<close> is the directive the
  handler was rendered with.
\<close>

definition handleAction_end ::
  "string \<Rightarrow> string \<Rightarrow> nat \<Rightarrow> js_error + string \<times> ResultType \<Rightarrow> app \<Rightarrow> app" where
  "handleAction_end d uuid now outcome s =
     (case outcome of
        Inr (result, ty) \<Rightarrow>
          s\<lparr>resultContent := Some result, resultType := ty, appState := SUCCESS,
            promptHistory := addToHistory d uuid now (promptHistory s)\<rparr>
      | Inl e \<Rightarrow> s\<lparr>errorMessage := Some (message e), appState := ERROR\<rparr>)"

text \<open>A whole run of the handler with no other event in between.\<close>

definition handleAction :: "backend \<Rightarrow> string \<Rightarrow> nat \<Rightarrow> app \<Rightarrow> app option" where
  "handleAction b uuid now s =
     map_option (\<lambda>outcome. handleAction_end (description s) uuid now outcome (handleAction_begin s))
       (dispatch b s)"

section \<open>handleSpeak\<close>

text \<open>
  \<open>new Int16Array(arrayBuffer)\<close>: a view of the bytes as 16-bit signed integers in the
  byte order of the platform, little-endian here; it throws a \<open>RangeError\<close> when the
  byte length is odd.
\<close>

fun int16_pairs :: "byte list \<Rightarrow> 16 word list" where
  "int16_pairs (lo # hi # rest) = word_cat hi lo # int16_pairs rest"
| "int16_pairs _ = []"

definition Int16Array :: "byte list \<Rightarrow> js_error + 16 word list" where
  "Int16Array arrayBuffer =
     (if odd (length arrayBuffer)
      then Inl (RangeError ''byte length of Int16Array should be a multiple of 2'')
      else Inr (int16_pairs arrayBuffer))"

text \<open>
  The decoding loop \<open>float32Data[i] = dataInt16[i] / 32768.0\<close>. A 16-bit integer divided
  by \<open>2 ^ 15\<close> has at most 16 significant bits, so the quotient is exact in double and in
  single precision: the value stored is the real quotient.
\<close>

definition decode_pcm :: "16 word list \<Rightarrow> real list" where
  "decode_pcm dataInt16 = map (\<lambda>w. real_of_int (sint w) / 32768) dataInt16"

definition decode_audio :: "byte list \<Rightarrow> js_error + real list" where
  "decode_audio arrayBuffer =
     (case Int16Array arrayBuffer of
        Inl e \<Rightarrow> Inl e
      | Inr dataInt16 \<Rightarrow> Inr (decode_pcm dataInt16))"

text \<open>
  The handler up to \<open>source.start()\<close>: the new state, and the samples handed to the audio
  context when there are any (\<open>createBuffer\<close> throws for a length of 0). The playing flag
  is released later by \<open>onended\<close>.
\<close>

definition handleSpeak :: "backend \<Rightarrow> app \<Rightarrow> app \<times> real list option" where
  "handleSpeak b s =
     (if \<not> truthy (resultContent s) \<or> resultType s \<noteq> RT_text then (s, None)
      else if isPlayingAudio s then (s, None)
      else
        let s1 = s\<lparr>isPlayingAudio := True, statusText := ''Synthesizing Audio...''\<rparr>;
            failed = s1\<lparr>isPlayingAudio := False, errorMessage := Some ''Audio generation failed''\<rparr>
        in case generateSpeech b (the (resultContent s)) of
             Inl e \<Rightarrow> (failed, None)
           | Inr arrayBuffer \<Rightarrow>
               (case decode_audio arrayBuffer of
                  Inl e \<Rightarrow> (failed, None)
                | Inr float32Data \<Rightarrow>
                    if length float32Data = 0 then (failed, None)
                    else (s1, Some float32Data)))"

text \<open>\<open>source.onended\<close>\<close>

definition onended :: "app \<Rightarrow> app" where
  "onended s = s\<lparr>isPlayingAudio := False\<rparr>"

section \<open>The words of the specification, for comparison\<close>

text \<open>
  A signed 16-bit little-endian sample, from its two bytes: the unsigned value
  \<open>lo + 256 * hi\<close>, less \<open>65536\<close> from \<open>32768\<close> on.
\<close>

definition spec_int16_le :: "byte \<Rightarrow> byte \<Rightarrow> int" where
  "spec_int16_le lo hi =
     (let u = uint lo + 256 * uint hi in if u < 32768 then u else u - 65536)"


text \<open>The history entry a submit stores for a directive.\<close>

definition entry_of :: "string \<times> string \<times> nat \<Rightarrow> PromptHistoryItem" where
  "entry_of x = (case x of (t, uuid, now) \<Rightarrow>
     \<lparr>item_id = uuid, item_text = t, item_timestamp = now\<rparr>)"

text \<open>
  What a run of submits stores: the submits with a directive that is not blank, without
  those whose directive repeats the one just before.
\<close>

fun collapse_runs :: "(string \<times> string \<times> nat) list \<Rightarrow> (string \<times> string \<times> nat) list" where
  "collapse_runs [] = []"
| "collapse_runs [x] = [x]"
| "collapse_runs (x # y # r) =
     (if fst x = fst y then collapse_runs (x # r) else x # collapse_runs (y # r))"

definition spec_stored ::
  "(string \<times> string \<times> nat) list \<Rightarrow> (string \<times> string \<times> nat) list" where
  "spec_stored xs = collapse_runs (filter (\<lambda>x. trim (fst x) \<noteq> []) xs)"

section \<open>Sessions and backends used as concrete inputs\<close>

definition scene_file :: FileData where
  "scene_file =
     \<lparr>file_obj = \<lparr>file_content = ''scene'', file_name = ''scene.png'',
                   file_type = ''image/png''\<rparr>,
      previewUrl = ''blob:scene'', base64 = Some ''c2NlbmU='', mimeType = ''image/png''\<rparr>"

definition person_file :: FileData where
  "person_file =
     \<lparr>file_obj = \<lparr>file_content = ''person'', file_name = ''person.png'',
                   file_type = ''image/png''\<rparr>,
      previewUrl = ''blob:person'', base64 = Some ''cGVyc29u'', mimeType = ''image/png''\<rparr>"

text \<open>Composite with both assets and the ownership flag set.\<close>

definition composite_ready :: app where
  "composite_ready =
     initial_app\<lparr>hasApiKey := True, bgImage := Some scene_file, refImage := Some person_file,
                 isVerified := True\<rparr>"

text \<open>Edit with the primary asset and an empty directive.\<close>

definition edit_ready :: app where
  "edit_ready = initial_app\<lparr>hasApiKey := True, mode := EDIT, bgImage := Some scene_file\<rparr>"

text \<open>A session showing a generated image, and one showing a generated video.\<close>

definition image_result_state :: app where
  "image_result_state =
     initial_app\<lparr>hasApiKey := True, mode := GENERATE, description := ''a red fox'',
                 appState := SUCCESS,
                 resultContent := Some ''data:image/png;base64,AAAA'',
                 resultType := RT_image\<rparr>"

definition video_result_state :: app where
  "video_result_state =
     initial_app\<lparr>hasApiKey := True, mode := ANIMATE, bgImage := Some scene_file,
                 description := ''pan left'', appState := SUCCESS,
                 resultContent := Some ''blob:video'', resultType := RT_video\<rparr>"

text \<open>A backend that cannot be reached: every call is rejected.\<close>

definition offline_backend :: backend where
  "offline_backend =
     \<lparr>generateContent = (\<lambda>_. Inl (Error ''Failed to fetch'')),
      generateVideos = (\<lambda>_. Inl (Error ''Failed to fetch'')),
      getVideosOperation = (\<lambda>_ _. Inl (Error ''Failed to fetch'')),
      fetch_blob = (\<lambda>_. Inl (Error ''Failed to fetch'')),
      createObjectURL = (\<lambda>_. ''blob:none''),
      atob = (\<lambda>_. Inl (Error ''Invalid character'')),
      API_KEY = ''key''\<rparr>"



text \<open>A backend that answers every content request with one image part.\<close>

definition image_backend :: backend where
  "image_backend =
     offline_backend
       \<lparr>generateContent :=
          (\<lambda>_. Inr \<lparr>resp_text = None,
                     resp_parts =
                       Some [\<lparr>part_inlineData = Some \<lparr>blob_data = Some ''AAAA''\<rparr>\<rparr>],
                     resp_groundingChunks = None\<rparr>)\<rparr>"

text \<open>Animate with the primary asset, a directive and the ratio 3:4.\<close>

definition animate_ready :: app where
  "animate_ready =
     initial_app\<lparr>hasApiKey := True, mode := ANIMATE, bgImage := Some scene_file,
                 description := ''pan left'', aspectRatio := R_3_4\<rparr>"

text \<open>Analyze with the primary asset and a directive.\<close>

definition analyze_ready :: app where
  "analyze_ready =
     initial_app\<lparr>hasApiKey := True, mode := ANALYZE, bgImage := Some scene_file,
                 description := ''what is this?''\<rparr>"

text \<open>A backend that answers every content request with a text.\<close>

definition text_backend :: backend where
  "text_backend =
     offline_backend
       \<lparr>generateContent :=
          (\<lambda>_. Inr \<lparr>resp_text = Some ''A fox.'', resp_parts = None,
                     resp_groundingChunks = None\<rparr>)\<rparr>"

text \<open>Generate with a directive.\<close>

definition generate_ready :: app where
  "generate_ready =
     initial_app\<lparr>hasApiKey := True, mode := GENERATE, description := ''a red fox''\<rparr>"

text \<open>Twenty-one submits with distinct directives, the first one first.\<close>

definition twenty_one :: "(string \<times> string \<times> nat) list" where
  "twenty_one =
     [(''d01'', ''id-01'', 1), (''d02'', ''id-02'', 2), (''d03'', ''id-03'', 3),
      (''d04'', ''id-04'', 4), (''d05'', ''id-05'', 5), (''d06'', ''id-06'', 6),
      (''d07'', ''id-07'', 7), (''d08'', ''id-08'', 8), (''d09'', ''id-09'', 9),
      (''d10'', ''id-10'', 10), (''d11'', ''id-11'', 11), (''d12'', ''id-12'', 12),
      (''d13'', ''id-13'', 13), (''d14'', ''id-14'', 14), (''d15'', ''id-15'', 15),
      (''d16'', ''id-16'', 16), (''d17'', ''id-17'', 17), (''d18'', ''id-18'', 18),
      (''d19'', ''id-19'', 19), (''d20'', ''id-20'', 20), (''d21'', ''id-21'', 21)]"

text \<open>Four submits: a directive, the same again, a blank one, another directive.\<close>

definition mixed_run :: "(string \<times> string \<times> nat) list" where
  "mixed_run =
     [(''a red fox'', ''id-1'', 1), (''a red fox'', ''id-2'', 2), (''  '', ''id-3'', 3),
      (''a blue bird'', ''id-4'', 4)]"





text \<open>A session showing a text result with markup.\<close>

definition text_result_state :: app where
  "text_result_state =
     initial_app\<lparr>hasApiKey := True, mode := CULINARY, bgImage := Some scene_file,
                 appState := SUCCESS, resultContent := Some ''# Dish (serves 2)'',
                 resultType := RT_text\<rparr>"

text \<open>
  A backend that synthesizes only the text \<open> Dish serves 2\<close> and rejects every other
  request; its \<open>atob\<close> gives the two bytes of one sample.
\<close>

definition speech_backend :: backend where
  "speech_backend =
     offline_backend
       \<lparr>generateContent :=
          (\<lambda>request.
             if req_parts request = [TextPart '' Dish serves 2'']
             then Inr \<lparr>resp_text = None,
                       resp_parts =
                         Some [\<lparr>part_inlineData = Some \<lparr>blob_data = Some ''AIA=''\<rparr>\<rparr>],
                       resp_groundingChunks = None\<rparr>
             else Inl (Error ''unexpected text'')),
        atob := (\<lambda>_. Inr [CHR 0x00, CHR 0x80])\<rparr>"

section \<open>Properties\<close>

subsection \<open>Submitting\<close>

text \<open>
  C1. \<open>canSubmit\<close> is a function of the mode, the inputs and the session state only. It is
  false while generating; otherwise it is true exactly when Reason and Generate have a
  non-empty directive, the five image modes have the primary asset, and Composite also has
  the reference asset and the ownership flag. For Composite, setting the flag back to
  false makes it false.
\<close>

theorem canSubmit_characterisation:
  "(appState s = GENERATING \<longrightarrow> \<not> canSubmit s) \<and>
   (appState s \<noteq> GENERATING \<longrightarrow>
      canSubmit s =
        ((mode s \<in> {REASON, GENERATE} \<longrightarrow> description s \<noteq> []) \<and>
         (mode s \<in> {COMPOSITE, EDIT, ANIMATE, ANALYZE, CULINARY} \<longrightarrow> bgImage s \<noteq> None) \<and>
         (mode s = COMPOSITE \<longrightarrow> refImage s \<noteq> None \<and> isVerified s))) \<and>
   (mode s = COMPOSITE \<longrightarrow> \<not> canSubmit (s\<lparr>isVerified := False\<rparr>)) \<and>
   canSubmit s =
     canSubmit (initial_app\<lparr>mode := mode s, bgImage := bgImage s, refImage := refImage s,
        description := description s, isVerified := isVerified s, appState := appState s\<rparr>)"
  by (cases "mode s") (auto simp: canSubmit_def)

theorem canSubmit_characterisation_witness:
  "appState composite_ready \<noteq> GENERATING \<and> mode composite_ready = COMPOSITE \<and>
   canSubmit composite_ready \<and> \<not> canSubmit (composite_ready\<lparr>isVerified := False\<rparr>) \<and>
   \<not> canSubmit (handleAction_begin composite_ready) \<and>
   mode generate_ready = GENERATE \<and> canSubmit generate_ready \<and>
   \<not> canSubmit (generate_ready\<lparr>description := []\<rparr>) \<and>
   mode edit_ready = EDIT \<and> canSubmit edit_ready \<and>
   \<not> canSubmit (edit_ready\<lparr>bgImage := None\<rparr>)"
  using canSubmit_characterisation [of composite_ready]
    canSubmit_characterisation [of "handleAction_begin composite_ready"]
    canSubmit_characterisation [of generate_ready]
    canSubmit_characterisation [of "generate_ready\<lparr>description := []\<rparr>"]
    canSubmit_characterisation [of edit_ready]
    canSubmit_characterisation [of "edit_ready\<lparr>bgImage := None\<rparr>"]
  by (simp add: composite_ready_def generate_ready_def edit_ready_def initial_app_def
      handleAction_begin_def)

subsection \<open>Chaining a result\<close>

text \<open>
  C2, as stated, fails. With an image result on display and a refetch that fails, the
  handler still switches the mode, clears the result and sets the session state to Idle:
  the \<open>catch\<close> block logs and the statements after it run all the same.
\<close>

theorem chain_fetch_failure_counterexample:
  "truthy (resultContent image_result_state) \<and>
   resultType image_result_state = RT_image \<and>
   fetch_blob offline_backend (the (resultContent image_result_state)) =
     Inl (Error ''Failed to fetch'') \<and>
   mode image_result_state = GENERATE \<and>
   appState image_result_state = SUCCESS \<and>
   mode (chainResultToInput offline_backend EDIT image_result_state) = EDIT \<and>
   appState (chainResultToInput offline_backend EDIT image_result_state) = IDLE \<and>
   resultContent (chainResultToInput offline_backend EDIT image_result_state) = None"
  by (simp add: chainResultToInput_def image_result_state_def initial_app_def
      offline_backend_def truthy_def)

text \<open>
  C2, amended. For every session with an image result on display, when the refetch of the
  image fails the failure stays inside the handler (no error message is set) and the
  primary asset, the reference asset and the directive text are unchanged.
\<close>

theorem chain_fetch_failure_keeps_inputs:
  assumes "truthy (resultContent s)" and "resultType s = RT_image"
    and "fetch_blob b (the (resultContent s)) = Inl e"
  shows "bgImage (chainResultToInput b targetMode s) = bgImage s \<and>
         refImage (chainResultToInput b targetMode s) = refImage s \<and>
         description (chainResultToInput b targetMode s) = description s \<and>
         errorMessage (chainResultToInput b targetMode s) = errorMessage s"
  using assms by (simp add: chainResultToInput_def)

theorem chain_fetch_failure_keeps_inputs_witness:
  "truthy (resultContent image_result_state) \<and>
   resultType image_result_state = RT_image \<and>
   fetch_blob offline_backend (the (resultContent image_result_state)) =
     Inl (Error ''Failed to fetch'') \<and>
   bgImage (chainResultToInput offline_backend EDIT image_result_state) = None \<and>
   refImage (chainResultToInput offline_backend EDIT image_result_state) = None \<and>
   description (chainResultToInput offline_backend EDIT image_result_state) = ''a red fox'' \<and>
   errorMessage (chainResultToInput offline_backend EDIT image_result_state) = None"
proof -
  have t: "truthy (resultContent image_result_state)"
    by (simp add: image_result_state_def initial_app_def truthy_def)
  have r: "resultType image_result_state = RT_image"
    by (simp add: image_result_state_def initial_app_def)
  have f: "fetch_blob offline_backend (the (resultContent image_result_state)) =
             Inl (Error ''Failed to fetch'')"
    by (simp add: offline_backend_def)
  show ?thesis
    using t r f chain_fetch_failure_keeps_inputs [OF t r f, of EDIT]
    by (simp add: image_result_state_def initial_app_def)
qed

text \<open>
  C8. Video artifacts are not chainable: for a session whose result is a video the
  interface renders no chain button, so the chain operation makes no transition and the
  mode, the session state, the result, the input assets and the directive text stay as
  they are. For an image result on display the three buttons do run the handler.
\<close>

theorem video_not_chainable:
  "(resultType s = RT_video \<longrightarrow>
      chain_buttons s = [] \<and>
      click_chain b targetMode s = s \<and>
      mode (click_chain b targetMode s) = mode s \<and>
      appState (click_chain b targetMode s) = appState s \<and>
      resultContent (click_chain b targetMode s) = resultContent s \<and>
      bgImage (click_chain b targetMode s) = bgImage s \<and>
      refImage (click_chain b targetMode s) = refImage s \<and>
      description (click_chain b targetMode s) = description s) \<and>
   (truthy (resultContent s) \<and> resultType s = RT_image \<and>
    targetMode \<in> {ANIMATE, EDIT, ANALYZE} \<longrightarrow>
      click_chain b targetMode s = chainResultToInput b targetMode s \<and>
      mode (click_chain b targetMode s) = targetMode)"
  by (auto simp: chain_buttons_def click_chain_def chainResultToInput_def Let_def
      split: sum.splits)

theorem video_not_chainable_witness:
  "resultType video_result_state = RT_video \<and>
   truthy (resultContent video_result_state) \<and>
   click_chain offline_backend EDIT video_result_state = video_result_state \<and>
   mode (click_chain offline_backend EDIT video_result_state) = ANIMATE \<and>
   appState (click_chain offline_backend EDIT video_result_state) = SUCCESS \<and>
   resultContent (click_chain offline_backend EDIT video_result_state) = Some ''blob:video'' \<and>
   resultType image_result_state = RT_image \<and>
   mode image_result_state = GENERATE \<and>
   mode (click_chain offline_backend EDIT image_result_state) = EDIT"
proof -
  have v: "resultType video_result_state = RT_video"
    "truthy (resultContent video_result_state)"
    "mode video_result_state = ANIMATE" "appState video_result_state = SUCCESS"
    "resultContent video_result_state = Some ''blob:video''"
    by (simp_all add: video_result_state_def initial_app_def truthy_def)
  have i: "truthy (resultContent image_result_state)"
    "resultType image_result_state = RT_image" "mode image_result_state = GENERATE"
    by (simp_all add: image_result_state_def initial_app_def truthy_def)
  from video_not_chainable [of video_result_state offline_backend EDIT] v
  have a: "click_chain offline_backend EDIT video_result_state = video_result_state"
    by simp
  from video_not_chainable [of image_result_state offline_backend EDIT] i
  have c: "mode (click_chain offline_backend EDIT image_result_state) = EDIT"
    by blast
  from v i a c show ?thesis by simp
qed

subsection \<open>Switching mode\<close>

text \<open>
  C5, as stated, fails. The mode buttons work while a job is in flight, and the handler
  does not touch the session state: from Generating the mode changes and the state stays
  Generating, from Success it stays Success.
\<close>

theorem selectMode_counterexample:
  "appState (handleAction_begin composite_ready) = GENERATING \<and>
   mode (handleAction_begin composite_ready) = COMPOSITE \<and>
   mode (selectMode EDIT (handleAction_begin composite_ready)) = EDIT \<and>
   appState (selectMode EDIT (handleAction_begin composite_ready)) = GENERATING \<and>
   appState (selectMode EDIT image_result_state) = SUCCESS"
  by (simp add: selectMode_def handleAction_begin_def composite_ready_def initial_app_def
      image_result_state_def)

text \<open>
  C5, amended. Selecting a mode runs in every session state: it sets the mode, clears the
  result on display, and leaves the primary asset, the reference asset and the directive
  text unchanged.
\<close>

theorem selectMode_effect:
  "mode (selectMode m s) = m \<and>
   resultContent (selectMode m s) = None \<and>
   bgImage (selectMode m s) = bgImage s \<and>
   refImage (selectMode m s) = refImage s \<and>
   description (selectMode m s) = description s"
  by (simp add: selectMode_def)

subsection \<open>The requests the adapters dispatch\<close>

text \<open>
  C4. For every Animate submission the request keeps the ratio 9:16 and maps each of the
  seven other ratios to 16:9; an empty directive is replaced by the default directive and
  a non-empty one is sent as given. The request is the one the submit hands to the
  backend: a backend that rejects it makes the submit fail with that error.
\<close>

theorem generateVideo_request_mapping:
  "vid_aspectRatio (generateVideo_request i m p R_9_16) = R_9_16 \<and>
   (\<forall>r \<in> {R_1_1, R_2_3, R_3_2, R_3_4, R_4_3, R_16_9, R_21_9}.
      vid_aspectRatio (generateVideo_request i m p r) = R_16_9) \<and>
   vid_prompt (generateVideo_request i m [] r) = ''Animate this image cinematically'' \<and>
   (p \<noteq> [] \<longrightarrow> vid_prompt (generateVideo_request i m p r) = p) \<and>
   (mode s = ANIMATE \<and> bgImage s = Some bg \<and>
    generateVideos b
      (generateVideo_request (base64 bg) (mimeType bg) (description s) (aspectRatio s)) = Inl e
    \<longrightarrow> dispatch b s = Some (Inl e))"
  by (auto simp: generateVideo_request_def videoRatio_def or_else_def dispatch_def
      generateVideo_def)

theorem generateVideo_request_mapping_witness:
  "vid_aspectRatio
     (generateVideo_request (Some ''c2NlbmU='') ''image/png'' ''pan left'' R_3_4) = R_16_9 \<and>
   vid_prompt
     (generateVideo_request (Some ''c2NlbmU='') ''image/png'' ''pan left'' R_3_4) =
     ''pan left'' \<and>
   mode animate_ready = ANIMATE \<and> bgImage animate_ready = Some scene_file \<and>
   generateVideos offline_backend
     (generateVideo_request (base64 scene_file) (mimeType scene_file)
        (description animate_ready) (aspectRatio animate_ready)) =
     Inl (Error ''Failed to fetch'') \<and>
   dispatch offline_backend animate_ready = Some (Inl (Error ''Failed to fetch''))"
  using generateVideo_request_mapping
    [of "Some ''c2NlbmU=''" "''image/png''" "''pan left''" R_3_4 animate_ready scene_file
       offline_backend "Error ''Failed to fetch''"]
  by (simp add: animate_ready_def initial_app_def offline_backend_def)

text \<open>
  C7, as stated, fails: for an empty directive the prompt sent is not
  \<open>describe in detail\<close>.
\<close>

theorem analyzeImage_default_prompt_counterexample:
  "req_parts (analyzeImage_request (Some ''c2NlbmU='') ''image/png'' []) =
     [TextPart ''Analyze this image in extreme detail. Structure your response with headers.'',
      InlineData ''image/png'' (Some ''c2NlbmU='')] \<and>
   req_parts (analyzeImage_request (Some ''c2NlbmU='') ''image/png'' []) \<noteq>
     [TextPart ''describe in detail'', InlineData ''image/png'' (Some ''c2NlbmU='')]"
  by (simp add: analyzeImage_request_def or_else_def)

text \<open>
  C7, amended. For every Analyze submission an empty directive is replaced by the prompt
  \<open>Analyze this image in extreme detail. Structure your response with headers.\<close>, a
  non-empty directive is sent as given, and when the backend answers, the outcome is a
  text artifact (the answer's text, or \<open>No analysis generated.\<close> when that is empty).
\<close>

theorem analyzeImage_prompt_and_type:
  "req_parts (analyzeImage_request i m []) =
     [TextPart ''Analyze this image in extreme detail. Structure your response with headers.'',
      InlineData m i] \<and>
   (p \<noteq> [] \<longrightarrow> req_parts (analyzeImage_request i m p) = [TextPart p, InlineData m i]) \<and>
   (mode s = ANALYZE \<and> bgImage s = Some bg \<and>
    generateContent b (analyzeImage_request (base64 bg) (mimeType bg) (description s)) = Inr r
    \<longrightarrow> dispatch b s = Some (Inr (or_else (resp_text r) ''No analysis generated.'', RT_text)))"
  by (auto simp: analyzeImage_request_def or_else_def dispatch_def analyzeImage_def)

theorem analyzeImage_prompt_and_type_witness:
  "req_parts (analyzeImage_request (Some ''c2NlbmU='') ''image/png'' ''what is this?'') =
     [TextPart ''what is this?'', InlineData ''image/png'' (Some ''c2NlbmU='')] \<and>
   mode analyze_ready = ANALYZE \<and> bgImage analyze_ready = Some scene_file \<and>
   dispatch text_backend analyze_ready = Some (Inr (''A fox.'', RT_text))"
  using analyzeImage_prompt_and_type
    [of "Some ''c2NlbmU=''" "''image/png''" "''what is this?''" analyze_ready scene_file
       text_backend
       "\<lparr>resp_text = Some ''A fox.'', resp_parts = None, resp_groundingChunks = None\<rparr>"]
  by (simp add: analyze_ready_def initial_app_def text_backend_def offline_backend_def
      or_else_def)

subsection \<open>Adapters and a backend without payload\<close>











subsection \<open>Narration\<close>

lemma replace_markup_filter: "replace_markup t = filter (\<lambda>c. c \<notin> set markup_chars) t"
  by (induction t) simp_all

lemma cleanText_eq: "cleanText t = take 1000 (filter (\<lambda>c. c \<notin> set markup_chars) t)"
  by (simp add: cleanText_def substring0_def replace_markup_filter)

lemma cleanText_no_markup: "c \<in> set (cleanText t) \<Longrightarrow> c \<notin> set markup_chars"
  unfolding cleanText_eq by (auto dest!: in_set_takeD)

lemma cleanText_length: "length (cleanText t) \<le> 1000"
  by (simp add: cleanText_eq)

lemma cleanText_changed:
  assumes "(\<exists>c \<in> set t. c \<in> set markup_chars) \<or> length t > 1000"
  shows "cleanText t \<noteq> t"
proof
  assume same: "cleanText t = t"
  from assms show False
  proof
    assume "\<exists>c \<in> set t. c \<in> set markup_chars"
    then obtain c where "c \<in> set t" "c \<in> set markup_chars" by blast
    with cleanText_no_markup [of c t] same show False by simp
  next
    assume "length t > 1000"
    with cleanText_length [of t] same show False by simp
  qed
qed

text \<open>
  C10. The text sent for synthesis is the result text with every \<open>*\<close>, \<open>#\<close>, \<open>[\<close>,
  \<open>]\<close>, \<open>(\<close> and \<open>)\<close> removed, cut to its first 1000 characters: it holds none of these
  characters, is at most 1000 long, and differs from the raw text whenever that holds one
  of them or is longer than 1000. The speech adapter, and the narrate operation through
  it, consult the backend on the request with this text only: the outcome is the
  backend's error or the audio of its answer to that request, and a backend that rejects
  every other request gives the same outcome.
\<close>

theorem cleanText_sanitizes:
  "cleanText t = take 1000 (filter (\<lambda>c. c \<notin> set ''*#[]()'') t) \<and>
   (\<forall>c \<in> set (cleanText t). c \<notin> set ''*#[]()'') \<and>
   length (cleanText t) \<le> 1000 \<and>
   ((\<exists>c \<in> set t. c \<in> set ''*#[]()'') \<or> length t > 1000 \<longrightarrow> cleanText t \<noteq> t) \<and>
   req_parts (generateSpeech_request t) = [TextPart (cleanText t)] \<and>
   (generateContent b (generateSpeech_request t) = Inl e \<longrightarrow> generateSpeech b t = Inl e) \<and>
   (generateContent b (generateSpeech_request t) = Inr r \<longrightarrow>
      generateSpeech b t = audio_of_response b r) \<and>
   generateSpeech b t =
     generateSpeech
       (b\<lparr>generateContent :=
            (\<lambda>request. if req_parts request = [TextPart (cleanText t)]
                        then generateContent b request else Inl (Error ''not sent''))\<rparr>) t \<and>
   (truthy (resultContent s) \<and> resultType s = RT_text \<and> \<not> isPlayingAudio s \<and>
    generateContent b (generateSpeech_request (the (resultContent s))) = Inl e \<longrightarrow>
      handleSpeak b s =
        (s\<lparr>isPlayingAudio := False, statusText := ''Synthesizing Audio...'',
           errorMessage := Some ''Audio generation failed''\<rparr>, None)) \<and>
   (truthy (resultContent s) \<and> resultType s = RT_text \<and> \<not> isPlayingAudio s \<longrightarrow>
      handleSpeak b s =
        handleSpeak
          (b\<lparr>generateContent :=
               (\<lambda>request. if req_parts request = [TextPart (cleanText (the (resultContent s)))]
                           then generateContent b request else Inl (Error ''not sent''))\<rparr>) s)"
proof -
  have req: "req_parts (generateSpeech_request t) = [TextPart (cleanText t)]" for t
    by (simp add: generateSpeech_request_def)
  have pure: "cleanText t = take 1000 (filter (\<lambda>c. c \<notin> set markup_chars) t) \<and>
   (\<forall>c \<in> set (cleanText t). c \<notin> set markup_chars) \<and>
   length (cleanText t) \<le> 1000 \<and>
   ((\<exists>c \<in> set t. c \<in> set markup_chars) \<or> length t > 1000 \<longrightarrow> cleanText t \<noteq> t)"
    using cleanText_eq [of t] cleanText_no_markup [of _ t] cleanText_length [of t]
      cleanText_changed [of t]
    by blast
  have rejected: "generateSpeech b t = Inl e"
    if "generateContent b (generateSpeech_request t) = Inl e"
    using that by (simp add: generateSpeech_def)
  have answered: "generateSpeech b t = audio_of_response b r"
    if "generateContent b (generateSpeech_request t) = Inr r"
    using that by (simp add: generateSpeech_def)
  have only: "generateSpeech b t =
     generateSpeech
       (b\<lparr>generateContent :=
            (\<lambda>request. if req_parts request = [TextPart (cleanText t)]
                        then generateContent b request else Inl (Error ''not sent''))\<rparr>) t" for t
    by (auto simp: generateSpeech_def req audio_of_response_def Let_def split: sum.splits)
  have speak_rejected: "handleSpeak b s =
        (s\<lparr>isPlayingAudio := False, statusText := ''Synthesizing Audio...'',
           errorMessage := Some ''Audio generation failed''\<rparr>, None)"
    if "truthy (resultContent s)" "resultType s = RT_text" "\<not> isPlayingAudio s"
      "generateContent b (generateSpeech_request (the (resultContent s))) = Inl e"
    using that by (simp add: handleSpeak_def generateSpeech_def Let_def)
  have speak_only: "handleSpeak b s =
        handleSpeak
          (b\<lparr>generateContent :=
               (\<lambda>request. if req_parts request = [TextPart (cleanText (the (resultContent s)))]
                           then generateContent b request else Inl (Error ''not sent''))\<rparr>) s"
    if "truthy (resultContent s)" "resultType s = RT_text" "\<not> isPlayingAudio s"
    using that only [of "the (resultContent s)"] by (simp add: handleSpeak_def Let_def)
  have "cleanText t = take 1000 (filter (\<lambda>c. c \<notin> set markup_chars) t) \<and>
   (\<forall>c \<in> set (cleanText t). c \<notin> set markup_chars) \<and>
   length (cleanText t) \<le> 1000 \<and>
   ((\<exists>c \<in> set t. c \<in> set markup_chars) \<or> length t > 1000 \<longrightarrow> cleanText t \<noteq> t) \<and>
   req_parts (generateSpeech_request t) = [TextPart (cleanText t)] \<and>
   (generateContent b (generateSpeech_request t) = Inl e \<longrightarrow> generateSpeech b t = Inl e) \<and>
   (generateContent b (generateSpeech_request t) = Inr r \<longrightarrow>
      generateSpeech b t = audio_of_response b r) \<and>
   generateSpeech b t =
     generateSpeech
       (b\<lparr>generateContent :=
            (\<lambda>request. if req_parts request = [TextPart (cleanText t)]
                        then generateContent b request else Inl (Error ''not sent''))\<rparr>) t \<and>
   (truthy (resultContent s) \<and> resultType s = RT_text \<and> \<not> isPlayingAudio s \<and>
    generateContent b (generateSpeech_request (the (resultContent s))) = Inl e \<longrightarrow>
      handleSpeak b s =
        (s\<lparr>isPlayingAudio := False, statusText := ''Synthesizing Audio...'',
           errorMessage := Some ''Audio generation failed''\<rparr>, None)) \<and>
   (truthy (resultContent s) \<and> resultType s = RT_text \<and> \<not> isPlayingAudio s \<longrightarrow>
      handleSpeak b s =
        handleSpeak
          (b\<lparr>generateContent :=
               (\<lambda>request. if req_parts request = [TextPart (cleanText (the (resultContent s)))]
                           then generateContent b request else Inl (Error ''not sent''))\<rparr>) s)"
    by (intro conjI impI pure [THEN conjunct1] pure [THEN conjunct2, THEN conjunct1]
        pure [THEN conjunct2, THEN conjunct2, THEN conjunct1]
        pure [THEN conjunct2, THEN conjunct2, THEN conjunct2, THEN mp]
        req rejected answered only speak_rejected speak_only; (elim conjE)?; assumption?)
  then show ?thesis
    unfolding markup_chars_def .
qed

theorem cleanText_sanitizes_witness:
  "CHR ''#'' \<in> set ''# Dish (serves 2)'' \<and>
   cleanText ''# Dish (serves 2)'' = '' Dish serves 2'' \<and>
   cleanText ''# Dish (serves 2)'' \<noteq> ''# Dish (serves 2)'' \<and>
   generateContent speech_backend
     \<lparr>req_model = ''gemini-2.5-flash-preview-tts'',
      req_parts = [TextPart ''# Dish (serves 2)''],
      req_config = no_config\<lparr>responseModalities := [''AUDIO''], voiceName := Some ''Kore''\<rparr>\<rparr> =
     Inl (Error ''unexpected text'') \<and>
   generateSpeech speech_backend ''# Dish (serves 2)'' = Inr [0x00, 0x80] \<and>
   generateSpeech offline_backend ''# Dish (serves 2)'' = Inl (Error ''Failed to fetch'') \<and>
   resultContent text_result_state = Some ''# Dish (serves 2)'' \<and>
   handleSpeak offline_backend text_result_state =
     (text_result_state\<lparr>isPlayingAudio := False, statusText := ''Synthesizing Audio...'',
        errorMessage := Some ''Audio generation failed''\<rparr>, None) \<and>
   handleSpeak speech_backend text_result_state =
     (text_result_state\<lparr>isPlayingAudio := True, statusText := ''Synthesizing Audio...''\<rparr>,
      Some [- 1])"
proof -
  let ?t = "''# Dish (serves 2)''"
  let ?r = "\<lparr>resp_text = None,
             resp_parts = Some [\<lparr>part_inlineData = Some \<lparr>blob_data = Some ''AIA=''\<rparr>\<rparr>],
             resp_groundingChunks = None\<rparr>"
  note A = cleanText_sanitizes [of ?t speech_backend _ ?r]
  note B = cleanText_sanitizes [of ?t offline_backend "Error ''Failed to fetch''" _
      text_result_state]
  have m: "(\<exists>c \<in> set ?t. c \<in> set ''*#[]()'') \<or> length ?t > 1000"
    by simp
  have v: "cleanText ?t = '' Dish serves 2''"
    by (simp add: cleanText_def substring0_def markup_chars_def)
  from A m have n: "cleanText ?t \<noteq> ?t"
    by blast
  have raw: "generateContent speech_backend
     \<lparr>req_model = ''gemini-2.5-flash-preview-tts'',
      req_parts = [TextPart ?t],
      req_config = no_config\<lparr>responseModalities := [''AUDIO''], voiceName := Some ''Kore''\<rparr>\<rparr> =
     Inl (Error ''unexpected text'')"
    by (simp add: speech_backend_def offline_backend_def)
  have sent: "generateContent speech_backend (generateSpeech_request ?t) = Inr ?r"
    by (simp add: speech_backend_def offline_backend_def generateSpeech_request_def v)
  from A sent have "generateSpeech speech_backend ?t = audio_of_response speech_backend ?r"
    by blast
  then have audio: "generateSpeech speech_backend ?t = Inr [0x00, 0x80]"
    by (simp add: audio_of_response_def base64Audio_of_def truthy_def speech_backend_def
        offline_backend_def)
  have st: "truthy (resultContent text_result_state)" "resultType text_result_state = RT_text"
    "\<not> isPlayingAudio text_result_state" "resultContent text_result_state = Some ?t"
    by (simp_all add: text_result_state_def initial_app_def truthy_def)
  have off: "generateContent offline_backend (generateSpeech_request ?t) =
      Inl (Error ''Failed to fetch'')"
    by (simp add: offline_backend_def)
  from B off have failed: "generateSpeech offline_backend ?t = Inl (Error ''Failed to fetch'')"
    by blast
  from off st(4)
  have off': "generateContent offline_backend
      (generateSpeech_request (the (resultContent text_result_state))) =
      Inl (Error ''Failed to fetch'')"
    by simp
  from B st(1,2,3) off'
  have speak: "handleSpeak offline_backend text_result_state =
     (text_result_state\<lparr>isPlayingAudio := False, statusText := ''Synthesizing Audio...'',
        errorMessage := Some ''Audio generation failed''\<rparr>, None)"
    by blast
  have spoken: "handleSpeak speech_backend text_result_state =
     (text_result_state\<lparr>isPlayingAudio := True, statusText := ''Synthesizing Audio...''\<rparr>,
      Some [- 1])"
    using audio st
    by (simp add: handleSpeak_def decode_audio_def Int16Array_def decode_pcm_def word_cat_eq
        Let_def)
  from v n raw audio failed st(4) speak spoken show ?thesis
    by simp
qed

subsection \<open>Audio decoding\<close>

lemma uint_word_cat_16: "uint (word_cat hi lo :: 16 word) = uint lo + 256 * uint hi"
  for lo hi :: byte
proof -
  have lo: "0 \<le> uint lo" "uint lo < 256" using uint_lt2p [of lo] by simp_all
  have hi: "0 \<le> uint hi" "uint hi < 256" using uint_lt2p [of hi] by simp_all
  have "uint (word_cat hi lo :: 16 word) = (uint hi * 256 + uint lo) mod 65536"
    by (simp add: word_cat_eq uint_word_ariths push_bit_eq_mult uint_up_ucast is_up
        mod_simps)
  also have "\<dots> = uint lo + 256 * uint hi"
    using lo hi by simp
  finally show ?thesis .
qed

lemma sint_16: "sint w = (if uint w < 32768 then uint w else uint w - 65536)"
  for w :: "16 word"
proof -
  have r: "0 \<le> uint w" "uint w < 65536" using uint_lt2p [of w] by simp_all
  have "sint w = (uint w + 32768) mod 65536 - 32768"
    by (simp add: sint_uint signed_take_bit_eq_take_bit_shift take_bit_eq_mod)
  also have "\<dots> = (if uint w < 32768 then uint w else uint w - 65536)"
  proof (cases "uint w < 32768")
    case True
    with r have "(uint w + 32768) mod 65536 = uint w + 32768" by simp
    with True show ?thesis by simp
  next
    case False
    with r have "(uint w + 32768) mod 65536 = uint w + 32768 - 65536"
      by (simp add: mod_pos_geq)
    with False show ?thesis by simp
  qed
  finally show ?thesis .
qed

lemma sint_word_cat_16: "sint (word_cat hi lo :: 16 word) = spec_int16_le lo hi"
  for lo hi :: byte
  by (simp add: sint_16 uint_word_cat_16 spec_int16_le_def Let_def)

lemma signed_word_cat_16:
  "(signed (word_cat hi lo :: 16 word) :: real) = real_of_int (spec_int16_le lo hi)"
  for lo hi :: byte
proof -
  have "real_of_int (sint (word_cat hi lo :: 16 word)) = real_of_int (spec_int16_le lo hi)"
    by (simp only: sint_word_cat_16)
  then show ?thesis by simp
qed

lemma length_int16_pairs: "length (int16_pairs bs) = length bs div 2"
  by (induction bs rule: int16_pairs.induct) simp_all

lemma nth_int16_pairs:
  "i < length bs div 2 \<Longrightarrow> int16_pairs bs ! i = word_cat (bs ! (2 * i + 1)) (bs ! (2 * i))"
proof (induction bs arbitrary: i rule: int16_pairs.induct)
  case (1 lo hi rest)
  then show ?case by (cases i) simp_all
qed simp_all

text \<open>
  C9. For every buffer of an even number of bytes the decoding succeeds, gives one value
  per pair of bytes, and the \<open>i\<close>-th value is the signed 16-bit little-endian sample of
  bytes \<open>2i\<close> and \<open>2i + 1\<close> divided by 32768. The buffer \<open>00 80 00 00\<close> decodes to
  \<open>-1\<close> and \<open>0\<close>.
\<close>

theorem decode_audio_samples:
  "(even (length bs) \<longrightarrow>
      (\<exists>fs. decode_audio bs = Inr fs \<and> length fs = length bs div 2 \<and>
            (\<forall>i < length fs.
               fs ! i = real_of_int (spec_int16_le (bs ! (2 * i)) (bs ! (2 * i + 1))) / 32768))) \<and>
   decode_audio [0x00, 0x80, 0x00, 0x00] = Inr [- 1, 0]"
proof -
  have general: "\<exists>fs. decode_audio bs = Inr fs \<and> length fs = length bs div 2 \<and>
            (\<forall>i < length fs.
               fs ! i = real_of_int (spec_int16_le (bs ! (2 * i)) (bs ! (2 * i + 1))) / 32768)"
    if "even (length bs)"
  proof -
    have d: "decode_audio bs = Inr (decode_pcm (int16_pairs bs))"
      using that by (simp add: decode_audio_def Int16Array_def)
    have l: "length (decode_pcm (int16_pairs bs)) = length bs div 2"
      by (simp add: decode_pcm_def length_int16_pairs)
    have n: "decode_pcm (int16_pairs bs) ! i =
               real_of_int (spec_int16_le (bs ! (2 * i)) (bs ! (2 * i + 1))) / 32768"
      if "i < length bs div 2" for i
      using that
      by (simp add: decode_pcm_def length_int16_pairs nth_int16_pairs signed_word_cat_16)
    from d l n show ?thesis by simp
  qed
  have example: "decode_audio [0x00, 0x80, 0x00, 0x00] = Inr [- 1, 0]"
    by (simp add: decode_audio_def Int16Array_def decode_pcm_def word_cat_eq)
  from general example show ?thesis by blast
qed

theorem decode_audio_samples_witness:
  "even (length [0xFF, 0x7F :: byte]) \<and>
   decode_audio [0xFF, 0x7F] = Inr [32767 / 32768]"
proof -
  have e: "even (length [0xFF, 0x7F :: byte])" by simp
  from decode_audio_samples [of "[0xFF, 0x7F]"] e
  obtain fs where fs: "decode_audio [0xFF, 0x7F] = Inr fs" "length fs = 1"
    "\<forall>i < length fs. fs ! i =
        real_of_int (spec_int16_le ([0xFF, 0x7F] ! (2 * i)) ([0xFF, 0x7F] ! (2 * i + 1))) / 32768"
    by auto
  then have "fs ! 0 = 32767 / 32768"
    by (simp add: spec_int16_le_def)
  with fs(2) have "fs = [32767 / 32768]"
    by (cases fs) simp_all
  with fs(1) e show ?thesis by simp
qed

subsection \<open>Prompt history\<close>

lemma addToHistory_blank: "trim t = [] \<Longrightarrow> addToHistory t u n h = h"
  by (simp add: addToHistory_def)

lemma addToHistory_trimmed:
  "trim t = t \<Longrightarrow> t \<noteq> [] \<Longrightarrow>
   addToHistory t u n h =
     (if h \<noteq> [] \<and> item_text (hd h) = t then h else take 20 (entry_of (t, u, n) # h))"
  by (simp add: addToHistory_def entry_of_def)

lemma addToHistory_twice:
  "trim t = t \<Longrightarrow> t \<noteq> [] \<Longrightarrow>
   addToHistory t u' n' (addToHistory t u n h) = addToHistory t u n h"
  by (simp add: addToHistory_trimmed entry_of_def)

lemma length_addToHistory: "length h \<le> 20 \<Longrightarrow> length (addToHistory t u n h) \<le> 20"
  by (simp add: addToHistory_def Let_def)

lemma length_submits: "length h \<le> 20 \<Longrightarrow> length (submits xs h) \<le> 20"
  by (induction xs h rule: submits.induct) (simp_all add: length_addToHistory)

lemma take_append_take: "take n (xs @ take n ys) = take n (xs @ ys)"
  by (simp add: min_def)

lemma submits_distinct:
  assumes "\<forall>x \<in> set xs. trim (fst x) = fst x \<and> fst x \<noteq> []"
    and "distinct_adj (map fst xs)"
    and "length h \<le> 20"
    and "xs \<noteq> [] \<Longrightarrow> h \<noteq> [] \<Longrightarrow> fst (hd xs) \<noteq> item_text (hd h)"
  shows "submits xs h = take 20 (rev (map entry_of xs) @ h)"
  using assms
proof (induction xs arbitrary: h)
  case Nil
  then show ?case by simp
next
  case (Cons x rest)
  obtain t u n where x: "x = (t, u, n)" by (cases x)
  from Cons.prems(1) x have t: "trim t = t" "t \<noteq> []" by simp_all
  let ?h = "take 20 (entry_of x # h)"
  from Cons.prems(4) x t have step: "addToHistory t u n h = ?h"
    by (auto simp: addToHistory_trimmed)
  have "submits rest ?h = take 20 (rev (map entry_of rest) @ ?h)"
  proof (rule Cons.IH)
    show "\<forall>x \<in> set rest. trim (fst x) = fst x \<and> fst x \<noteq> []"
      using Cons.prems(1) by simp
    show "distinct_adj (map fst rest)"
      using Cons.prems(2) by (cases rest) simp_all
    show "length ?h \<le> 20" by simp
    show "fst (hd rest) \<noteq> item_text (hd ?h)" if "rest \<noteq> []" "?h \<noteq> []"
      using that Cons.prems(2) x by (cases rest) (auto simp: entry_of_def)
  qed
  also have "\<dots> = take 20 (rev (map entry_of rest) @ entry_of x # h)"
    by (rule take_append_take)
  finally show ?case
    using step x by simp
qed

lemma collapse_runs_Cons: "collapse_runs (x # xs) = x # tl (collapse_runs (x # xs))"
  by (induction xs arbitrary: x) simp_all

lemma submits_after:
  assumes "\<forall>y \<in> set xs. trim (fst y) = fst y \<or> trim (fst y) = []"
    and "trim (fst x) = fst x" and "fst x \<noteq> []"
    and "h = take 20 (entry_of x # h0)"
  shows "submits xs h = take 20 (rev (map entry_of (tl (spec_stored (x # xs)))) @ h)"
  using assms
proof (induction xs arbitrary: x h h0)
  case Nil
  then show ?case by (simp add: spec_stored_def)
next
  case (Cons y r)
  obtain t u n where y: "y = (t, u, n)" by (cases y)
  have hd_h: "h \<noteq> []" "item_text (hd h) = fst x"
    using Cons.prems(4) by (cases x; simp add: entry_of_def)+
  have rest: "\<forall>z \<in> set r. trim (fst z) = fst z \<or> trim (fst z) = []"
    using Cons.prems(1) by simp
  have t: "trim t = t \<and> t \<noteq> []" if "trim t \<noteq> []"
    using Cons.prems(1) y that by auto
  consider (blank) "trim t = []" | (same) "trim t \<noteq> []" "t = fst x"
    | (new) "trim t \<noteq> []" "t \<noteq> fst x"
    by blast
  then show ?case
  proof cases
    case blank
    then have "addToHistory t u n h = h" by (rule addToHistory_blank)
    moreover have "spec_stored (x # y # r) = spec_stored (x # r)"
      using blank y by (simp add: spec_stored_def)
    ultimately show ?thesis
      using Cons.IH [OF rest Cons.prems(2,3,4)] y by simp
  next
    case same
    then have "addToHistory t u n h = h"
      using hd_h t by (simp add: addToHistory_trimmed)
    moreover have "spec_stored (x # y # r) = spec_stored (x # r)"
      using same y Cons.prems(2,3) by (simp add: spec_stored_def)
    ultimately show ?thesis
      using Cons.IH [OF rest Cons.prems(2,3,4)] y by simp
  next
    case new
    let ?h = "take 20 (entry_of y # h)"
    have step: "addToHistory t u n h = ?h"
      using new hd_h y t by (simp add: addToHistory_trimmed)
    have ty: "trim (fst y) = fst y" "fst y \<noteq> []"
      using new y t by simp_all
    have "spec_stored (x # y # r) = x # spec_stored (y # r)"
      using new y Cons.prems(2,3) by (simp add: spec_stored_def)
    moreover have "spec_stored (y # r) = y # tl (spec_stored (y # r))"
      using ty by (simp add: spec_stored_def collapse_runs_Cons [symmetric])
    ultimately have tl: "tl (spec_stored (x # y # r)) = y # tl (spec_stored (y # r))"
      by simp
    have "submits r ?h = take 20 (rev (map entry_of (tl (spec_stored (y # r)))) @ ?h)"
      by (rule Cons.IH [OF rest ty refl])
    also have "\<dots> = take 20 (rev (map entry_of (tl (spec_stored (y # r)))) @ entry_of y # h)"
      by (rule take_append_take)
    finally show ?thesis
      using step y tl by simp
  qed
qed

lemma submits_stored:
  assumes "\<forall>y \<in> set xs. trim (fst y) = fst y \<or> trim (fst y) = []"
  shows "submits xs [] = take 20 (rev (map entry_of (spec_stored xs)))"
  using assms
proof (induction xs)
  case Nil
  then show ?case by (simp add: spec_stored_def)
next
  case (Cons y r)
  obtain t u n where y: "y = (t, u, n)" by (cases y)
  have rest: "\<forall>z \<in> set r. trim (fst z) = fst z \<or> trim (fst z) = []"
    using Cons.prems by simp
  show ?case
  proof (cases "trim t = []")
    case True
    then have "addToHistory t u n [] = []" by (rule addToHistory_blank)
    moreover have "spec_stored (y # r) = spec_stored r"
      using True y by (simp add: spec_stored_def)
    ultimately show ?thesis
      using Cons.IH [OF rest] y by simp
  next
    case False
    with Cons.prems y have ty: "trim (fst y) = fst y" "fst y \<noteq> []"
      by auto
    have step: "addToHistory t u n [] = take 20 (entry_of y # [])"
      using ty y by (simp add: addToHistory_trimmed)
    have s: "spec_stored (y # r) = y # tl (spec_stored (y # r))"
      using ty by (simp add: spec_stored_def collapse_runs_Cons [symmetric])
    have "submits r (take 20 (entry_of y # [])) =
            take 20 (rev (map entry_of (tl (spec_stored (y # r)))) @ take 20 (entry_of y # []))"
      by (rule submits_after [OF rest ty refl])
    also have "\<dots> = take 20 (rev (map entry_of (tl (spec_stored (y # r)))) @ [entry_of y])"
      by (rule take_append_take)
    also have "\<dots> = take 20 (rev (map entry_of (y # tl (spec_stored (y # r)))))"
      by simp
    also have "\<dots> = take 20 (rev (map entry_of (spec_stored (y # r))))"
      using s by simp
    finally show ?thesis
      using step y by simp
  qed
qed

text \<open>
  C6, as stated, fails. A submit with an empty directive is possible in the image modes
  and succeeds, and it stores no entry, although no stored entry has that text.
\<close>

theorem blank_directive_counterexample:
  "canSubmit edit_ready \<and> description edit_ready = [] \<and> promptHistory edit_ready = [] \<and>
   map_option appState (handleAction image_backend ''id-1'' 1 edit_ready) = Some SUCCESS \<and>
   map_option promptHistory (handleAction image_backend ''id-1'' 1 edit_ready) = Some []"
  by (simp add: canSubmit_def edit_ready_def initial_app_def handleAction_def dispatch_def
      handleAction_end_def handleAction_begin_def editImage_def image_backend_def
      offline_backend_def image_of_response_def addToHistory_def trim_def scene_file_def)

text \<open>
  C6, amended. A directive that is blank after trimming stores nothing. A directive with
  no white space at its ends is stored at the front unless it equals the text of the
  first stored entry, so that submitting it twice in a row stores one entry. The list
  never grows beyond 20 entries. After a run of submits whose directives are blank or
  have no white space at their ends, the list holds the 20 most recent of the submits
  that are not blank and do not repeat the directive just before, the most recent first;
  for directives none blank and no two in a row alike these are the 20 most recent
  submits. A successful submit applies this to its directive.
\<close>

theorem history_insertion:
  "(trim t0 = [] \<longrightarrow> addToHistory t0 u n h = h) \<and>
   (trim t = t \<and> t \<noteq> [] \<longrightarrow>
      addToHistory t u n h =
        (if h \<noteq> [] \<and> item_text (hd h) = t then h else take 20 (entry_of (t, u, n) # h)) \<and>
      addToHistory t u' n' (addToHistory t u n h) = addToHistory t u n h) \<and>
   (length h \<le> 20 \<longrightarrow> length (submits xs h) \<le> 20) \<and>
   ((\<forall>x \<in> set xs. trim (fst x) = fst x \<or> trim (fst x) = []) \<longrightarrow>
      submits xs [] = take 20 (rev (map entry_of (spec_stored xs)))) \<and>
   ((\<forall>x \<in> set ys. trim (fst x) = fst x \<and> fst x \<noteq> []) \<and> distinct_adj (map fst ys) \<longrightarrow>
      submits ys [] = take 20 (rev (map entry_of ys))) \<and>
   (handleAction b u n s = Some s' \<and> appState s' = SUCCESS \<longrightarrow>
      promptHistory s' = addToHistory (description s) u n (promptHistory s))"
proof -
  have seq: "submits ys [] = take 20 (rev (map entry_of ys))"
    if "\<forall>x \<in> set ys. trim (fst x) = fst x \<and> fst x \<noteq> []" "distinct_adj (map fst ys)"
    using submits_distinct [of ys "[]"] that by simp
  have submit: "promptHistory s' = addToHistory (description s) u n (promptHistory s)"
    if "handleAction b u n s = Some s'" "appState s' = SUCCESS"
    using that
    by (cases "dispatch b s")
      (auto simp: handleAction_def handleAction_end_def handleAction_begin_def
        split: sum.splits)
  from addToHistory_blank [of t0 u n h] addToHistory_trimmed [of t u n h]
    addToHistory_twice [of t u' n' u n h] length_submits [of h xs] submits_stored [of xs]
    seq submit
  show ?thesis by blast
qed

theorem history_insertion_witness:
  "trim ''  '' = [] \<and> addToHistory ''  '' ''id-1'' 1 [] = [] \<and>
   trim ''a red fox'' = ''a red fox'' \<and>
   addToHistory ''a red fox'' ''id-2'' 2 (addToHistory ''a red fox'' ''id-1'' 1 []) =
     [\<lparr>item_id = ''id-1'', item_text = ''a red fox'', item_timestamp = 1\<rparr>] \<and>
   submits mixed_run [] =
     [\<lparr>item_id = ''id-4'', item_text = ''a blue bird'', item_timestamp = 4\<rparr>,
      \<lparr>item_id = ''id-1'', item_text = ''a red fox'', item_timestamp = 1\<rparr>] \<and>
   distinct_adj (map fst twenty_one) \<and>
   submits twenty_one [] = rev (map entry_of (tl twenty_one)) \<and>
   length (submits twenty_one []) = 20 \<and>
   map_option appState (handleAction image_backend ''id-1'' 1 generate_ready) = Some SUCCESS \<and>
   map_option promptHistory (handleAction image_backend ''id-1'' 1 generate_ready) =
     Some [\<lparr>item_id = ''id-1'', item_text = ''a red fox'', item_timestamp = 1\<rparr>]"
proof -
  let ?s' = "the (handleAction image_backend ''id-1'' 1 generate_ready)"
  note H = history_insertion [of "''  ''" "''id-1''" 1 "[]" "''a red fox''" "''id-2''" 2
      mixed_run twenty_one image_backend generate_ready ?s']
  have b: "trim ''  '' = []"
    by (simp add: trim_def is_js_space_def)
  have t: "trim ''a red fox'' = ''a red fox''" "''a red fox'' \<noteq> []"
    by (simp_all add: trim_def is_js_space_def)
  have m: "\<forall>x \<in> set mixed_run. trim (fst x) = fst x \<or> trim (fst x) = []"
    by (simp add: mixed_run_def trim_def is_js_space_def)
  have sm: "take 20 (rev (map entry_of (spec_stored mixed_run))) =
     [\<lparr>item_id = ''id-4'', item_text = ''a blue bird'', item_timestamp = 4\<rparr>,
      \<lparr>item_id = ''id-1'', item_text = ''a red fox'', item_timestamp = 1\<rparr>]"
    by (simp add: mixed_run_def spec_stored_def trim_def is_js_space_def entry_of_def)
  have a: "\<forall>x \<in> set twenty_one. trim (fst x) = fst x \<and> fst x \<noteq> []"
    by (simp add: twenty_one_def trim_def is_js_space_def)
  have d: "distinct_adj (map fst twenty_one)"
    by (simp add: twenty_one_def)
  have r: "take 20 (rev (map entry_of twenty_one)) = rev (map entry_of (tl twenty_one))"
    by (simp add: twenty_one_def)
  have l: "length (rev (map entry_of (tl twenty_one))) = 20"
    by (simp add: twenty_one_def)
  have run: "handleAction image_backend ''id-1'' 1 generate_ready \<noteq> None"
    by (simp add: handleAction_def dispatch_def generate_ready_def initial_app_def)
  then have some: "handleAction image_backend ''id-1'' 1 generate_ready = Some ?s'"
    by simp
  have ok: "appState ?s' = SUCCESS"
    by (simp add: handleAction_def dispatch_def generate_ready_def initial_app_def
        handleAction_end_def generateImage_def image_backend_def offline_backend_def
        image_of_response_def)
  have d0: "description generate_ready = ''a red fox''" "promptHistory generate_ready = []"
    by (simp_all add: generate_ready_def initial_app_def)
  from H b have blank: "addToHistory ''  '' ''id-1'' 1 [] = []"
    by blast
  from H t have first: "addToHistory ''a red fox'' ''id-1'' 1 [] =
      [\<lparr>item_id = ''id-1'', item_text = ''a red fox'', item_timestamp = 1\<rparr>]"
    by (simp add: entry_of_def)
  from H t have twice:
    "addToHistory ''a red fox'' ''id-2'' 2 (addToHistory ''a red fox'' ''id-1'' 1 []) =
     addToHistory ''a red fox'' ''id-1'' 1 []"
    by blast
  from H m have mixed: "submits mixed_run [] = take 20 (rev (map entry_of (spec_stored mixed_run)))"
    by blast
  from H a d have seq: "submits twenty_one [] = take 20 (rev (map entry_of twenty_one))"
    by blast
  from H some ok have hist:
    "promptHistory ?s' =
       addToHistory (description generate_ready) ''id-1'' 1 (promptHistory generate_ready)"
    by blast
  have p: "map_option promptHistory (handleAction image_backend ''id-1'' 1 generate_ready) =
      Some [\<lparr>item_id = ''id-1'', item_text = ''a red fox'', item_timestamp = 1\<rparr>]"
    by (subst some) (use hist d0 first in simp)
  have q: "map_option appState (handleAction image_backend ''id-1'' 1 generate_ready) =
      Some SUCCESS"
    by (subst some) (use ok in simp)
  from b blank t(1) first twice mixed sm d seq r l p q show ?thesis
    by simp
qed

text \<open>
  A directive with white space at an end is compared as given and stored trimmed:
  submitted twice in a row it is stored twice.
\<close>

lemma addToHistory_untrimmed_repeat:
  "addToHistory '' fox'' ''id-2'' 2 (addToHistory '' fox'' ''id-1'' 1 []) =
     [\<lparr>item_id = ''id-2'', item_text = ''fox'', item_timestamp = 2\<rparr>,
      \<lparr>item_id = ''id-1'', item_text = ''fox'', item_timestamp = 1\<rparr>]"
  by (simp add: addToHistory_def trim_def is_js_space_def)

end
